theory Spec2Isabelle
  imports Complex_Main
begin

section \<open>Strings of the content script\<close>

text \<open>
  A JavaScript string is read as the list of its code units; \<open>char\<close> stands for a
  code unit. The constants the content script compares with are all ASCII.
\<close>

definition quot :: string where
  "quot = [CHR 0x22]"

text \<open>\<open>String.prototype.toLowerCase\<close> on the ASCII letters.\<close>

definition toLowerChar :: "char \<Rightarrow> char" where
  "toLowerChar c =
     (let n = (of_char c :: nat) in if 65 \<le> n \<and> n \<le> 90 then char_of (n + 32) else c)"

definition toLowerCase :: "string \<Rightarrow> string" where
  "toLowerCase s = map toLowerChar s"

text \<open>
  \<open>String.prototype.trim\<close>: white space and line terminators are removed from both
  ends. The code units listed are TAB, LF, VT, FF, CR, SPACE and NBSP.
\<close>

definition isWhiteSpace :: "char \<Rightarrow> bool" where
  "isWhiteSpace c = ((of_char c :: nat) \<in> set [9, 10, 11, 12, 13, 32, 160])"

definition trim :: "string \<Rightarrow> string" where
  "trim s = rev (dropWhile isWhiteSpace (rev (dropWhile isWhiteSpace s)))"

section \<open>Elements of the host document\<close>

text \<open>
  An element carries the properties and attributes the content script reads. Object
  identity (\<open>===\<close>) is equality of \<open>elemId\<close>. \<open>nodeRole\<close> says whether the node is
  \<open>document.documentElement\<close>, \<open>document.body\<close> or any other node. The ancestors are
  reached through \<open>parentElement\<close>, so the document is a tree by construction.
\<close>

datatype docrole = DocumentElement | Body | Ordinary

datatype element = Element
  (elemId: nat)
  (tagName: string)
  (typeProp: string)
  (isContentEditable: bool)
  (disabled: bool)
  (readOnly: bool)
  (attrs: "(string \<times> string) list")
  (nodeRole: docrole)
  (parentElement: "element option")

definition getAttribute :: "element \<Rightarrow> string \<Rightarrow> string option" where
  "getAttribute el name = map_of (attrs el) name"

text \<open>\<open>el.getAttribute(name) || ''\<close>\<close>

definition attrOrEmpty :: "element \<Rightarrow> string \<Rightarrow> string" where
  "attrOrEmpty el name = (case getAttribute el name of None \<Rightarrow> [] | Some v \<Rightarrow> v)"

section \<open>Eligibility classifier\<close>

record decision =
  check :: bool
  reason :: string

definition PROSE_INPUT_TYPES :: "string list" where
  "PROSE_INPUT_TYPES = [''text'', ''search'', ''email'']"

definition EXCLUDED_INPUT_TYPES :: "string list" where
  "EXCLUDED_INPUT_TYPES =
     [''password'', ''number'', ''tel'', ''url'', ''date'', ''datetime-local'',
      ''time'', ''month'', ''week'', ''color'', ''range'', ''file'', ''hidden'']"

definition EXCLUDED_INPUTMODES :: "string list" where
  "EXCLUDED_INPUTMODES = [''numeric'', ''decimal'', ''tel'', ''none'']"

definition EXCLUDED_AUTOCOMPLETE :: "string list" where
  "EXCLUDED_AUTOCOMPLETE =
     [''cc-number'', ''cc-exp'', ''cc-csc'', ''cc-type'',
      ''tel'', ''tel-national'', ''tel-country-code'',
      ''one-time-code'', ''postal-code'', ''bday'']"

definition EXCLUDED_ROLES :: "string list" where
  "EXCLUDED_ROLES = [''spinbutton'', ''slider'', ''switch'', ''combobox'', ''listbox'', ''menu'']"

text \<open>
  \<open>getInheritedAttr\<close>: the loop \<open>while (node && node !== document.documentElement)\<close>
  is the recursion over \<open>parentElement\<close>; the first value found is returned in lower
  case, \<open>None\<close> is JavaScript's \<open>null\<close>.
\<close>

fun getInheritedAttr :: "element \<Rightarrow> string \<Rightarrow> string option" where
  "getInheritedAttr (Element i tg ty ce d r as rl p) name =
     (if rl = DocumentElement then None
      else case map_of as name of
             Some v \<Rightarrow> Some (toLowerCase v)
           | None \<Rightarrow> (case p of None \<Rightarrow> None | Some q \<Rightarrow> getInheritedAttr q name))"

text \<open>
  Rule 2 of \<open>shouldCheckElement\<close>: \<open>Inl\<close> is the early return for an excluded input
  type, \<open>Inr\<close> the value of the local variable \<open>eligible\<close>.
\<close>

definition basicEligibility :: "element \<Rightarrow> decision + bool" where
  "basicEligibility el =
     (let tag = tagName el in
      if tag = ''TEXTAREA'' then Inr True
      else if tag = ''INPUT'' then
        (let ty = toLowerCase (if typeProp el = [] then ''text'' else typeProp el) in
         if ty \<in> set PROSE_INPUT_TYPES then Inr True
         else if ty \<in> set EXCLUDED_INPUT_TYPES
           then Inl \<lparr>check = False, reason = ''input type='' @ quot @ ty @ quot @ '' excluded''\<rparr>
         else Inr False)
      else if isContentEditable el then Inr True
      else Inr False)"

text \<open>Rules 3 to 8: disabled and read-only state, spellcheck, inputmode, autocomplete, role.\<close>

definition stateAndHints :: "element \<Rightarrow> decision" where
  "stateAndHints el =
     (let inputmode = toLowerCase (attrOrEmpty el ''inputmode'');
          autocomplete = toLowerCase (attrOrEmpty el ''autocomplete'');
          role = toLowerCase (attrOrEmpty el ''role'')
      in
      if disabled el then \<lparr>check = False, reason = ''element is disabled''\<rparr>
      else if readOnly el then \<lparr>check = False, reason = ''element is readonly''\<rparr>
      else if getAttribute el ''aria-disabled'' = Some ''true''
        then \<lparr>check = False, reason = ''aria-disabled='' @ quot @ ''true'' @ quot\<rparr>
      else if getAttribute el ''aria-readonly'' = Some ''true''
        then \<lparr>check = False, reason = ''aria-readonly='' @ quot @ ''true'' @ quot\<rparr>
      else if getInheritedAttr el ''spellcheck'' = Some ''false''
        then \<lparr>check = False, reason = ''spellcheck='' @ quot @ ''false'' @ quot\<rparr>
      else if inputmode \<in> set EXCLUDED_INPUTMODES
        then \<lparr>check = False, reason = ''inputmode='' @ quot @ inputmode @ quot @ '' excluded''\<rparr>
      else if autocomplete \<in> set EXCLUDED_AUTOCOMPLETE
        then \<lparr>check = False,
              reason = ''autocomplete='' @ quot @ autocomplete @ quot @ '' excluded''\<rparr>
      else if role \<in> set EXCLUDED_ROLES
        then \<lparr>check = False, reason = ''role='' @ quot @ role @ quot @ '' excluded''\<rparr>
      else \<lparr>check = True, reason = ''eligible''\<rparr>)"

text \<open>\<open>shouldCheckElement\<close>; the argument \<open>None\<close> is a null element.\<close>

definition shouldCheckElement :: "element option \<Rightarrow> decision" where
  "shouldCheckElement e =
     (case e of
        None \<Rightarrow> \<lparr>check = False, reason = ''null element''\<rparr>
      | Some el \<Rightarrow>
          (let correctly = getInheritedAttr el ''data-correctly'' in
           if correctly = Some ''false''
             then \<lparr>check = False, reason = ''data-correctly='' @ quot @ ''false'' @ quot\<rparr>
           else if correctly = Some ''true''
             then \<lparr>check = True,
                   reason = ''data-correctly='' @ quot @ ''true'' @ quot @ '' (forced)''\<rparr>
           else (case basicEligibility el of
                   Inl excluded \<Rightarrow> excluded
                 | Inr eligible \<Rightarrow>
                     if eligible then stateAndHints el
                     else \<lparr>check = False, reason = ''not an editable prose element''\<rparr>)))"

section \<open>Host resolver\<close>

text \<open>
  The loop of \<open>resolveEditableHost\<close>: it stops at \<open>document.body\<close> and at
  \<open>document.documentElement\<close>; \<open>None\<close> means the loop ran out and the caller returns
  the original element. An absent attribute reads as the empty string, as
  \<open>getAttribute('contenteditable') || ''\<close> does.
\<close>

fun resolveWalk :: "element \<Rightarrow> element option" where
  "resolveWalk (Element i tg ty ce d r as rl p) =
     (if rl = Body \<or> rl = DocumentElement then None
      else (let c = toLowerCase (case map_of as ''contenteditable'' of None \<Rightarrow> [] | Some v \<Rightarrow> v) in
            if c = ''true'' \<or> c = [] \<or> c = ''plaintext-only''
              then Some (Element i tg ty ce d r as rl p)
            else (case p of None \<Rightarrow> None | Some q \<Rightarrow> resolveWalk q)))"

definition resolveEditableHost :: "element option \<Rightarrow> element option" where
  "resolveEditableHost e =
     (case e of
        None \<Rightarrow> None
      | Some el \<Rightarrow>
          if tagName el = ''INPUT'' \<or> tagName el = ''TEXTAREA'' then Some el
          else (case resolveWalk el of Some node \<Rightarrow> Some node | None \<Rightarrow> Some el))"

section \<open>Text substitution\<close>

text \<open>
  \<open>text.replace(original, replacement)\<close> with two strings, as ECMAScript defines it:
  the first occurrence of the search string is found (\<open>StringIndexOf\<close> from position
  0), and the replacement is the expansion of the replacement template
  (\<open>GetSubstitution\<close>). With a string pattern there are no captures, so the only
  patterns that expand are \<open>$$\<close> (a dollar sign), \<open>$&\<close> (the matched text),
  \<open>$`\<close> (the text before the match) and \<open>$'\<close> (the text after the match); every other
  code unit, a \<open>$\<close> before a digit or \<open><\<close> included, stands for itself.
\<close>

fun startsWith :: "string \<Rightarrow> string \<Rightarrow> bool" where
  "startsWith s [] = True"
| "startsWith [] (p # ps) = False"
| "startsWith (c # cs) (p # ps) = (c = p \<and> startsWith cs ps)"

fun indexOf :: "string \<Rightarrow> string \<Rightarrow> nat option" where
  "indexOf [] pat = (if pat = [] then Some 0 else None)"
| "indexOf (c # cs) pat =
     (if startsWith (c # cs) pat then Some 0 else map_option Suc (indexOf cs pat))"

fun getSubstitution :: "string \<Rightarrow> string \<Rightarrow> string \<Rightarrow> string \<Rightarrow> string" where
  "getSubstitution matched preceding following [] = []"
| "getSubstitution matched preceding following [c] = [c]"
| "getSubstitution matched preceding following (c # d # rest) =
     (if c = CHR ''$'' \<and> d = CHR ''$'' then CHR ''$'' # getSubstitution matched preceding following rest
      else if c = CHR ''$'' \<and> d = CHR 0x60 then preceding @ getSubstitution matched preceding following rest
      else if c = CHR ''$'' \<and> d = CHR ''&'' then matched @ getSubstitution matched preceding following rest
      else if c = CHR ''$'' \<and> d = CHR 0x27 then following @ getSubstitution matched preceding following rest
      else c # getSubstitution matched preceding following (d # rest))"

definition replace :: "string \<Rightarrow> string \<Rightarrow> string \<Rightarrow> string" where
  "replace s searchValue replaceValue =
     (case indexOf s searchValue of
        None \<Rightarrow> s
      | Some pos \<Rightarrow>
          (let preceding = take pos s;
               following = drop (pos + length searchValue) s
           in preceding @ getSubstitution searchValue preceding following replaceValue @ following))"

section \<open>Tooltip placement\<close>

text \<open>
  The numbers of \<open>positionTooltip\<close> are JavaScript numbers; they are modelled as
  reals. \<open>rectBottom\<close> is \<open>getBoundingClientRect().bottom\<close> of a box of non-negative
  height.
\<close>

record rect =
  rectTop :: real
  rectLeft :: real
  rectWidth :: real
  rectHeight :: real

definition rectBottom :: "rect \<Rightarrow> real" where
  "rectBottom r = rectTop r + rectHeight r"

record viewport =
  innerWidth :: real
  innerHeight :: real
  scrollX :: real
  scrollY :: real

record placed =
  placement :: string
  styleTop :: real
  styleLeft :: real
  datasetPlacement :: string
  arrowOffset :: real

definition TOOLTIP_GAP :: real where
  "TOOLTIP_GAP = 8"

definition VIEWPORT_PADDING :: real where
  "VIEWPORT_PADDING = 10"

definition positionTooltip :: "rect \<Rightarrow> rect \<Rightarrow> viewport \<Rightarrow> placed" where
  "positionTooltip tipRect elRect vp =
     (let tipW = rectWidth tipRect;
          tipH = rectHeight tipRect;
          vpW = innerWidth vp;
          vpH = innerHeight vp;
          sx = scrollX vp;
          sy = scrollY vp;
          spaceBelow = vpH - rectBottom elRect;
          spaceAbove = rectTop elRect;
          (pl, top0) =
            (if spaceBelow \<ge> tipH + TOOLTIP_GAP + VIEWPORT_PADDING
               then (''below'', rectBottom elRect + sy + TOOLTIP_GAP)
             else if spaceAbove \<ge> tipH + TOOLTIP_GAP + VIEWPORT_PADDING
               then (''above'', rectTop elRect + sy - tipH - TOOLTIP_GAP)
             else if spaceBelow \<ge> spaceAbove
               then (''below-clamped'', rectBottom elRect + sy + TOOLTIP_GAP)
             else (''above-clamped'', rectTop elRect + sy - tipH - TOOLTIP_GAP));
          left0 = rectLeft elRect + sx;
          left1 = (if left0 + tipW > sx + vpW - VIEWPORT_PADDING
                     then sx + vpW - tipW - VIEWPORT_PADDING else left0);
          left2 = (if left1 < sx + VIEWPORT_PADDING then sx + VIEWPORT_PADDING else left1);
          minTop = sy + VIEWPORT_PADDING;
          maxTop = sy + vpH - tipH - VIEWPORT_PADDING;
          top1 = max minTop (min top0 maxTop);
          elCenterX = rectLeft elRect + sx + rectWidth elRect / 2
      in \<lparr>placement = pl,
          styleTop = top1,
          styleLeft = left2,
          datasetPlacement = (if startsWith pl ''above'' then ''above'' else ''below''),
          arrowOffset = max 20 (min (elCenterX - left2) (tipW - 20))\<rparr>)"

section \<open>Session state\<close>

record change =
  original :: string
  replacement :: string
  explanation :: string

record correction =
  corrected :: string
  changes :: "change list"

text \<open>
  The tooltip element: \<open>visible\<close> is the class \<open>correctly-visible\<close>, \<open>rows\<close> the
  \<open>data-index\<close> values of the displayed \<open>.correctly-change\<close> rows in document order.
\<close>

record tooltip =
  visible :: bool
  rows :: "int list"

text \<open>
  What the content script does to the page and to the extension runtime, in order.
  \<open>CheckGrammarCalled\<close> marks an invocation of \<open>checkGrammar\<close>;
  \<open>RemoveIndicatorCalled k\<close> is a call of \<open>removeIndicator\<close> that found and removed
  \<open>k\<close> indicator elements.
\<close>

datatype effect =
    CheckGrammarCalled nat
  | MessageSent string
  | IndicatorShown nat
  | RemoveIndicatorCalled nat
  | TextWritten nat string
  | InputDispatched nat
  | ErrorLogged

text \<open>
  The first seven fields are the variables of the content script. The others are the
  page and the browser: \<open>texts\<close> holds the \<open>value\<close> or \<open>innerText\<close> of each element,
  \<open>indicators\<close> counts the \<open>.correctly-indicator\<close> elements in the document,
  \<open>timers\<close> is the browser's table of pending timeouts (identifier, due time and the
  element the callback closes over), \<open>timerCounter\<close> the last identifier handed out,
  \<open>now\<close> the clock in milliseconds.
\<close>

record world =
  debounceTimer :: "nat option"
  activeElement :: "element option"
  tooltipEl :: "tooltip option"
  currentCorrection :: "correction option"
  applyingCorrection :: bool
  dismissedElement :: "element option"
  lastLoggedElement :: "element option"
  texts :: "nat \<Rightarrow> string"
  indicators :: nat
  timers :: "(nat \<times> nat \<times> element) list"
  timerCounter :: nat
  now :: nat
  trace :: "effect list"

definition DEBOUNCE_MS :: nat where
  "DEBOUNCE_MS = 1500"

definition MIN_TEXT_LENGTH :: nat where
  "MIN_TEXT_LENGTH = 10"

text \<open>\<open>ref === el\<close> for a variable that holds an element or null.\<close>

definition sameElement :: "element option \<Rightarrow> element \<Rightarrow> bool" where
  "sameElement ref el = (case ref of None \<Rightarrow> False | Some x \<Rightarrow> elemId x = elemId el)"

definition emit :: "effect \<Rightarrow> world \<Rightarrow> world" where
  "emit e w = w\<lparr>trace := trace w @ [e]\<rparr>"

definition getTextFromElement :: "world \<Rightarrow> element \<Rightarrow> string" where
  "getTextFromElement w el =
     (if tagName el = ''INPUT'' \<or> tagName el = ''TEXTAREA'' then texts w (elemId el)
      else if isContentEditable el then texts w (elemId el)
      else [])"

section \<open>Timers of the browser\<close>

text \<open>
  \<open>setTimeout\<close> hands out a fresh positive identifier and files the callback;
  \<open>clearTimeout\<close> drops the entry with that identifier.
\<close>

definition setTimeout :: "element \<Rightarrow> nat \<Rightarrow> world \<Rightarrow> nat \<times> world" where
  "setTimeout el delay w =
     (let tid = Suc (timerCounter w) in
      (tid, w\<lparr>timers := timers w @ [(tid, now w + delay, el)], timerCounter := tid\<rparr>))"

definition clearTimeout :: "nat \<Rightarrow> world \<Rightarrow> world" where
  "clearTimeout tid w = w\<lparr>timers := filter (\<lambda>t. fst t \<noteq> tid) (timers w)\<rparr>"

section \<open>Indicator and tooltip\<close>

definition removeIndicator :: "world \<Rightarrow> world" where
  "removeIndicator w = emit (RemoveIndicatorCalled (indicators w)) (w\<lparr>indicators := 0\<rparr>)"

definition showIndicator :: "element \<Rightarrow> world \<Rightarrow> world" where
  "showIndicator el w =
     (let w1 = removeIndicator w in
      emit (IndicatorShown (elemId el)) (w1\<lparr>indicators := indicators w1 + 1\<rparr>))"

definition hideTooltip :: "world \<Rightarrow> world" where
  "hideTooltip w =
     (let w1 = (case tooltipEl w of
                  None \<Rightarrow> w
                | Some tip \<Rightarrow> if visible tip then w\<lparr>tooltipEl := Some (tip\<lparr>visible := False\<rparr>)\<rparr> else w)
      in removeIndicator (w1\<lparr>currentCorrection := None\<rparr>))"

definition createTooltip :: "world \<Rightarrow> tooltip \<times> world" where
  "createTooltip w =
     (case tooltipEl w of
        Some tip \<Rightarrow> (tip, w)
      | None \<Rightarrow> (let tip = \<lparr>visible = False, rows = []\<rparr> in (tip, w\<lparr>tooltipEl := Some tip\<rparr>)))"

text \<open>
  \<open>showTooltip\<close>: the rows are numbered from zero; the position that
  \<open>positionTooltip\<close> computes goes to the style of the tooltip only and is not part of
  the session state.
\<close>

definition showTooltip :: "element \<Rightarrow> correction \<Rightarrow> world \<Rightarrow> world" where
  "showTooltip el c w =
     (let (tip, w1) = createTooltip (w\<lparr>currentCorrection := Some c\<rparr>) in
      w1\<lparr>tooltipEl := Some (tip\<lparr>rows := map int [0..<length (changes c)], visible := True\<rparr>)\<rparr>)"

section \<open>Debounce and check\<close>

text \<open>
  \<open>handleInput\<close> for an input event whose target is \<open>raw\<close>. A timer identifier is
  truthy when it is not zero.
\<close>

definition handleInput :: "element \<Rightarrow> world \<Rightarrow> world" where
  "handleInput raw w =
     (if applyingCorrection w then w
      else
        (let el = resolveEditableHost (Some raw);
             decision = shouldCheckElement el
         in case el of
              None \<Rightarrow> w
            | Some e \<Rightarrow>
                if \<not> check decision then w
                else
                  (let w1 = (if \<not> sameElement (lastLoggedElement w) e
                             then w\<lparr>lastLoggedElement := Some e\<rparr> else w);
                       w2 = (if sameElement (dismissedElement w1) e
                             then w1\<lparr>dismissedElement := None\<rparr> else w1);
                       w3 = w2\<lparr>activeElement := Some e\<rparr>;
                       w4 = (case debounceTimer w3 of
                               None \<Rightarrow> w3
                             | Some tid \<Rightarrow> if tid \<noteq> 0 then clearTimeout tid w3 else w3);
                       (tid, w5) = setTimeout e DEBOUNCE_MS w4
                   in w5\<lparr>debounceTimer := Some tid\<rparr>)))"

text \<open>
  \<open>checkGrammar\<close> up to its \<open>await\<close>: the suppression test, the length test, the
  indicator and the request. The request is \<open>MessageSent text\<close> in the trace.
\<close>

definition checkGrammar :: "element \<Rightarrow> world \<Rightarrow> world" where
  "checkGrammar el w0 =
     (let w = emit (CheckGrammarCalled (elemId el)) w0 in
      if sameElement (dismissedElement w) el then w
      else
        (let text = getTextFromElement w el in
         if length (trim text) < MIN_TEXT_LENGTH then w
         else emit (MessageSent text) (showIndicator el w)))"

text \<open>
  How the request ends: the promise resolves with a response of the background script
  (\<open>{success: true, data}\<close> or \<open>{success: false, error}\<close>), or it rejects.
\<close>

datatype response = Success correction | Failure string

datatype outcome = Resolved response | Rejected string

text \<open>\<open>checkGrammar\<close> after its \<open>await\<close>: the \<open>try\<close> block and the \<open>catch\<close> block.\<close>

definition checkGrammarResume :: "element \<Rightarrow> outcome \<Rightarrow> world \<Rightarrow> world" where
  "checkGrammarResume el out w =
     (case out of
        Resolved resp \<Rightarrow>
          (let w1 = removeIndicator w in
           case resp of
             Success data \<Rightarrow> if length (changes data) > 0 then showTooltip el data w1 else w1
           | Failure err \<Rightarrow> emit ErrorLogged w1)
      | Rejected err \<Rightarrow> emit ErrorLogged (removeIndicator w))"

text \<open>The callback that \<open>handleInput\<close> passes to \<open>setTimeout\<close>.\<close>

definition debounceCallback :: "element \<Rightarrow> world \<Rightarrow> world" where
  "debounceCallback el w = checkGrammar el (w\<lparr>debounceTimer := None\<rparr>)"

text \<open>
  \<open>handleFocusOut\<close> for a focusout event with target \<open>raw\<close>; \<open>relatedInTooltip\<close> is
  \<open>tooltipEl.contains(event.relatedTarget)\<close>.
\<close>

definition handleFocusOut :: "element \<Rightarrow> bool \<Rightarrow> world \<Rightarrow> world" where
  "handleFocusOut raw relatedInTooltip w =
     (if tooltipEl w \<noteq> None \<and> relatedInTooltip then w
      else
        (let el = resolveEditableHost (Some raw);
             decision = shouldCheckElement el
         in case el of
              None \<Rightarrow> w
            | Some e \<Rightarrow>
                if \<not> check decision then w
                else
                  (let w1 = (case debounceTimer w of
                               None \<Rightarrow> w
                             | Some tid \<Rightarrow>
                                 if tid \<noteq> 0 then (clearTimeout tid w)\<lparr>debounceTimer := None\<rparr>
                                 else w);
                       text = getTextFromElement w1 e
                   in if length (trim text) < MIN_TEXT_LENGTH then w1
                      else checkGrammar e (w1\<lparr>activeElement := Some e\<rparr>))))"

text \<open>
  The clock moves to \<open>t\<close>: the timeouts due by then leave the table and their callbacks
  run, earliest first. No callback of the content script sets or clears a timeout.
\<close>

definition advance :: "nat \<Rightarrow> world \<Rightarrow> world" where
  "advance t w =
     (let due = filter (\<lambda>x. fst (snd x) \<le> t) (timers w);
          pending = filter (\<lambda>x. \<not> fst (snd x) \<le> t) (timers w)
      in foldl (\<lambda>v x. debounceCallback (snd (snd x)) v)
           (w\<lparr>timers := pending, now := max (now w) t\<rparr>)
           (sort_key (\<lambda>x. fst (snd x)) due))"

section \<open>Diff applier\<close>

text \<open>
  \<open>setTextOnElement\<close>: the write, then \<open>dispatchEvent\<close>, which runs the document's
  input listener \<open>handleInput\<close> before it returns.
\<close>

definition writeAndDispatch :: "element \<Rightarrow> string \<Rightarrow> world \<Rightarrow> world" where
  "writeAndDispatch el text w =
     handleInput el
       (emit (InputDispatched (elemId el))
          (emit (TextWritten (elemId el) text) (w\<lparr>texts := (texts w)(elemId el := text)\<rparr>)))"

definition setTextOnElement :: "element \<Rightarrow> string \<Rightarrow> world \<Rightarrow> world" where
  "setTextOnElement el text w =
     (if tagName el = ''INPUT'' \<or> tagName el = ''TEXTAREA'' then writeAndDispatch el text w
      else if isContentEditable el then writeAndDispatch el text w
      else w)"

text \<open>\<open>changes[index]\<close>: \<open>None\<close> is \<open>undefined\<close>.\<close>

definition changeAt :: "change list \<Rightarrow> int \<Rightarrow> change option" where
  "changeAt cs i = (if 0 \<le> i \<and> i < int (length cs) then Some (cs ! nat i) else None)"

text \<open>\<open>changes.splice(index, 1)\<close>: a negative start counts from the end.\<close>

definition splice1 :: "'a list \<Rightarrow> int \<Rightarrow> 'a list" where
  "splice1 xs i =
     (let len = int (length xs);
          start = nat (if i < 0 then max (len + i) 0 else min i len)
      in take start xs @ drop (Suc start) xs)"

datatype js_error = TypeError

text \<open>
  \<open>acceptSingleCorrection\<close>. \<open>Inl TypeError\<close> is the exception of a property read on
  null; \<open>currentCorrection\<close> and \<open>tooltipEl\<close> are read again after the write, as the
  source reads them.
\<close>

definition acceptSingleCorrection :: "int \<Rightarrow> world \<Rightarrow> js_error + world" where
  "acceptSingleCorrection index w =
     (case (activeElement w, currentCorrection w) of
        (Some ae, Some cc) \<Rightarrow>
          (case changeAt (changes cc) index of
             None \<Rightarrow> Inr w
           | Some ch \<Rightarrow>
               (let currentText = getTextFromElement w ae;
                    updatedText = replace currentText (original ch) (replacement ch);
                    w1 = setTextOnElement ae updatedText (w\<lparr>applyingCorrection := True\<rparr>);
                    w2 = w1\<lparr>applyingCorrection := False\<rparr>
                in case currentCorrection w2 of
                     None \<Rightarrow> Inl TypeError
                   | Some cc2 \<Rightarrow>
                       (let remaining = splice1 (changes cc2) index;
                            w3 = w2\<lparr>currentCorrection :=
                                     Some (cc2\<lparr>changes := remaining, corrected := updatedText\<rparr>)\<rparr>
                        in case tooltipEl w3 of
                             None \<Rightarrow> Inl TypeError
                           | Some tip \<Rightarrow>
                               (let tip1 = tip\<lparr>rows := remove1 index (rows tip)\<rparr>;
                                    w4 = w3\<lparr>tooltipEl := Some tip1\<rparr>
                                in if length remaining = 0 then Inr (hideTooltip w4)
                                   else Inr (w4\<lparr>tooltipEl :=
                                     Some (tip1\<lparr>rows := map int [0..<length (rows tip1)]\<rparr>)\<rparr>)))))
      | _ \<Rightarrow> Inr w)"

text \<open>\<open>acceptCorrections\<close>: the loop over the changes is the fold.\<close>

definition acceptCorrections :: "world \<Rightarrow> world" where
  "acceptCorrections w =
     hideTooltip
       (case (activeElement w, currentCorrection w) of
          (Some ae, Some cc) \<Rightarrow>
            if length (changes cc) > 0 then
              (let text = foldl (\<lambda>t ch. replace t (original ch) (replacement ch))
                                (getTextFromElement w ae) (changes cc);
                   w1 = setTextOnElement ae text (w\<lparr>applyingCorrection := True\<rparr>)
               in w1\<lparr>applyingCorrection := False\<rparr>)
            else w
        | _ \<Rightarrow> w)"

text \<open>The click listener of the Dismiss button.\<close>

definition dismissClick :: "world \<Rightarrow> world" where
  "dismissClick w = hideTooltip (w\<lparr>dismissedElement := activeElement w\<rparr>)"

text \<open>
  The user types: at each time the text of the editable host changes and the input
  event is dispatched at \<open>raw\<close>.
\<close>

definition hostId :: "element \<Rightarrow> nat" where
  "hostId raw = (case resolveEditableHost (Some raw) of None \<Rightarrow> elemId raw | Some e \<Rightarrow> elemId e)"

fun typing :: "element \<Rightarrow> (nat \<times> string) list \<Rightarrow> world \<Rightarrow> world" where
  "typing raw [] w = w"
| "typing raw ((t, txt) # rest) w =
     typing raw rest
       (handleInput raw ((advance t w)\<lparr>texts := (texts (advance t w))(hostId raw := txt)\<rparr>))"

section \<open>Observations on the trace\<close>

definition requests :: "world \<Rightarrow> string list" where
  "requests w = concat (map (\<lambda>e. case e of MessageSent t \<Rightarrow> [t] | _ \<Rightarrow> []) (trace w))"

definition checksFired :: "world \<Rightarrow> nat list" where
  "checksFired w = concat (map (\<lambda>e. case e of CheckGrammarCalled i \<Rightarrow> [i] | _ \<Rightarrow> []) (trace w))"

definition removals :: "world \<Rightarrow> nat list" where
  "removals w = concat (map (\<lambda>e. case e of RemoveIndicatorCalled k \<Rightarrow> [k] | _ \<Rightarrow> []) (trace w))"

definition writes :: "world \<Rightarrow> (nat \<times> string) list" where
  "writes w = concat (map (\<lambda>e. case e of TextWritten i t \<Rightarrow> [(i, t)] | _ \<Rightarrow> []) (trace w))"

definition errorsLogged :: "world \<Rightarrow> nat" where
  "errorsLogged w = length (filter (\<lambda>e. e = ErrorLogged) (trace w))"

text \<open>
  Input events that follow one another by less than the quiet period, in delivery
  order.
\<close>

fun rapid :: "(nat \<times> string) list \<Rightarrow> bool" where
  "rapid [] = True"
| "rapid [x] = True"
| "rapid (x # y # rest) = (fst x \<le> fst y \<and> fst y < fst x + DEBOUNCE_MS \<and> rapid (y # rest))"

text \<open>
  The state between two such events: the one pending timeout is the one
  \<open>debounceTimer\<close> names, due at \<open>d\<close>, for the element \<open>el\<close>.
\<close>

definition armed :: "element \<Rightarrow> nat \<Rightarrow> world \<Rightarrow> bool" where
  "armed el d w =
     (case debounceTimer w of
        None \<Rightarrow> False
      | Some tid \<Rightarrow> tid \<noteq> 0 \<and> timers w = [(tid, d, el)] \<and> d = now w + DEBOUNCE_MS
                    \<and> \<not> applyingCorrection w \<and> \<not> sameElement (dismissedElement w) el)"

text \<open>
  The state in which an input event at time \<open>t\<close> finds the session during such a
  run: nothing is pending, or the one timeout of \<open>armed\<close> is pending and not yet due.
\<close>

definition ready :: "element \<Rightarrow> nat \<Rightarrow> world \<Rightarrow> bool" where
  "ready el t w =
     (now w \<le> t \<and> \<not> applyingCorrection w
      \<and> (timers w = [] \<or> (armed el (now w + DEBOUNCE_MS) w \<and> t < now w + DEBOUNCE_MS)))"

section \<open>Concrete inputs\<close>

definition formForced :: element where
  "formForced = Element 1 ''FORM'' [] False False False [(''data-correctly'', ''true'')] Ordinary None"

definition passwordField :: element where
  "passwordField =
     Element 2 ''INPUT'' ''password'' False True True
       [(''aria-disabled'', ''true''), (''spellcheck'', ''false''), (''inputmode'', ''numeric''),
        (''autocomplete'', ''cc-number''), (''role'', ''slider'')]
       Ordinary (Some formForced)"

definition optedOut :: element where
  "optedOut = Element 3 ''TEXTAREA'' ''textarea'' False False False [(''data-correctly'', ''false'')] Ordinary None"

definition textArea :: element where
  "textArea = Element 4 ''TEXTAREA'' ''textarea'' False False False [] Ordinary None"

definition idle :: world where
  "idle = \<lparr>debounceTimer = None, activeElement = None, tooltipEl = None,
            currentCorrection = None, applyingCorrection = False, dismissedElement = None,
            lastLoggedElement = None, texts = (\<lambda>i. []), indicators = 0, timers = [],
            timerCounter = 0, now = 0, trace = []\<rparr>"

definition dollarFix :: change where
  "dollarFix = \<lparr>original = ''the $ sign'', replacement = ''the '$' sign'',
                 explanation = ''Quote the symbol.''\<rparr>"

definition teh :: change where
  "teh = \<lparr>original = ''teh'', replacement = ''the'', explanation = ''Spelling.''\<rparr>"

definition recieve :: change where
  "recieve = \<lparr>original = ''recieve'', replacement = ''receive'', explanation = ''Spelling.''\<rparr>"

definition shortDraft :: world where
  "shortDraft = idle\<lparr>texts := (\<lambda>i. if i = 4 then ''  Hi there  '' else [])\<rparr>"

definition draft :: world where
  "draft = idle\<lparr>texts := (\<lambda>i. if i = 4 then ''I has teh cat.'' else [])\<rparr>"

definition dismissed :: world where
  "dismissed = draft\<lparr>activeElement := Some textArea, dismissedElement := Some textArea\<rparr>"

definition keystrokes :: "(nat \<times> string) list" where
  "keystrokes = [(0, ''I has''), (1000, ''I has teh cat''), (2000, ''I has teh cat today.'')]"

definition retouched :: "nat \<Rightarrow> string" where
  "retouched = (\<lambda>i. if i = 4 then ''I has teh cat today, again.'' else [])"

text \<open>A session with a tooltip open on \<open>textArea\<close>, showing the changes \<open>cs\<close>.\<close>

definition reviewing :: "string \<Rightarrow> change list \<Rightarrow> world" where
  "reviewing txt cs =
     idle\<lparr>activeElement := Some textArea,
          tooltipEl := Some \<lparr>visible = True, rows = map int [0..<length cs]\<rparr>,
          currentCorrection := Some \<lparr>corrected = txt, changes = cs\<rparr>,
          texts := (\<lambda>i. if i = 4 then txt else [])\<rparr>"

section \<open>Basic facts\<close>

lemma lower_true: "toLowerCase ''true'' = ''true''"
  by code_simp

lemma lower_false: "toLowerCase ''false'' = ''false''"
  by code_simp

lemma handleInput_guarded: "applyingCorrection w \<Longrightarrow> handleInput raw w = w"
  by (simp add: handleInput_def)

lemma trace_emit [simp]: "trace (emit e w) = trace w @ [e]"
  by (simp add: emit_def)

lemma emit_fields [simp]:
  "debounceTimer (emit e w) = debounceTimer w"
  "activeElement (emit e w) = activeElement w"
  "tooltipEl (emit e w) = tooltipEl w"
  "currentCorrection (emit e w) = currentCorrection w"
  "applyingCorrection (emit e w) = applyingCorrection w"
  "dismissedElement (emit e w) = dismissedElement w"
  "lastLoggedElement (emit e w) = lastLoggedElement w"
  "texts (emit e w) = texts w"
  "indicators (emit e w) = indicators w"
  "timers (emit e w) = timers w"
  "timerCounter (emit e w) = timerCounter w"
  "now (emit e w) = now w"
  by (simp_all add: emit_def)

lemma clearTimeout_fields [simp]:
  "debounceTimer (clearTimeout t w) = debounceTimer w"
  "activeElement (clearTimeout t w) = activeElement w"
  "tooltipEl (clearTimeout t w) = tooltipEl w"
  "currentCorrection (clearTimeout t w) = currentCorrection w"
  "applyingCorrection (clearTimeout t w) = applyingCorrection w"
  "dismissedElement (clearTimeout t w) = dismissedElement w"
  "lastLoggedElement (clearTimeout t w) = lastLoggedElement w"
  "texts (clearTimeout t w) = texts w"
  "indicators (clearTimeout t w) = indicators w"
  "timerCounter (clearTimeout t w) = timerCounter w"
  "now (clearTimeout t w) = now w"
  "trace (clearTimeout t w) = trace w"
  by (simp_all add: clearTimeout_def)

lemma getText_cong:
  "texts w' = texts w \<Longrightarrow> getTextFromElement w' el = getTextFromElement w el"
  by (simp add: getTextFromElement_def)

lemma checkGrammar_short:
  assumes "length (trim (getTextFromElement w el)) < MIN_TEXT_LENGTH"
  shows "checkGrammar el w = emit (CheckGrammarCalled (elemId el)) w"
proof -
  have "getTextFromElement (emit (CheckGrammarCalled (elemId el)) w) el = getTextFromElement w el"
    by (rule getText_cong) simp
  with assms show ?thesis by (simp add: checkGrammar_def Let_def)
qed

lemma textArea_host: "resolveEditableHost (Some textArea) = Some textArea"
  by (simp add: resolveEditableHost_def textArea_def)

lemma textArea_eligible: "check (shouldCheckElement (Some textArea))"
  by code_simp

lemma removeIndicator_fields [simp]:
  "debounceTimer (removeIndicator w) = debounceTimer w"
  "activeElement (removeIndicator w) = activeElement w"
  "tooltipEl (removeIndicator w) = tooltipEl w"
  "currentCorrection (removeIndicator w) = currentCorrection w"
  "applyingCorrection (removeIndicator w) = applyingCorrection w"
  "dismissedElement (removeIndicator w) = dismissedElement w"
  "lastLoggedElement (removeIndicator w) = lastLoggedElement w"
  "texts (removeIndicator w) = texts w"
  "indicators (removeIndicator w) = 0"
  "timers (removeIndicator w) = timers w"
  "timerCounter (removeIndicator w) = timerCounter w"
  "now (removeIndicator w) = now w"
  "trace (removeIndicator w) = trace w @ [RemoveIndicatorCalled (indicators w)]"
  by (simp_all add: removeIndicator_def)

lemma showIndicator_fields [simp]:
  "debounceTimer (showIndicator el w) = debounceTimer w"
  "activeElement (showIndicator el w) = activeElement w"
  "tooltipEl (showIndicator el w) = tooltipEl w"
  "currentCorrection (showIndicator el w) = currentCorrection w"
  "applyingCorrection (showIndicator el w) = applyingCorrection w"
  "dismissedElement (showIndicator el w) = dismissedElement w"
  "lastLoggedElement (showIndicator el w) = lastLoggedElement w"
  "texts (showIndicator el w) = texts w"
  "indicators (showIndicator el w) = 1"
  "timers (showIndicator el w) = timers w"
  "timerCounter (showIndicator el w) = timerCounter w"
  "now (showIndicator el w) = now w"
  "trace (showIndicator el w)
     = trace w @ [RemoveIndicatorCalled (indicators w), IndicatorShown (elemId el)]"
  by (simp_all add: showIndicator_def Let_def)

lemma hideTooltip_fields [simp]:
  "debounceTimer (hideTooltip w) = debounceTimer w"
  "activeElement (hideTooltip w) = activeElement w"
  "currentCorrection (hideTooltip w) = None"
  "applyingCorrection (hideTooltip w) = applyingCorrection w"
  "dismissedElement (hideTooltip w) = dismissedElement w"
  "lastLoggedElement (hideTooltip w) = lastLoggedElement w"
  "texts (hideTooltip w) = texts w"
  "indicators (hideTooltip w) = 0"
  "timers (hideTooltip w) = timers w"
  "timerCounter (hideTooltip w) = timerCounter w"
  "now (hideTooltip w) = now w"
  "trace (hideTooltip w) = trace w @ [RemoveIndicatorCalled (indicators w)]"
  by (simp_all add: hideTooltip_def Let_def split: option.splits)

lemma hideTooltip_visible:
  "tooltipEl (hideTooltip w) = map_option (\<lambda>tip. tip\<lparr>visible := False\<rparr>) (tooltipEl w)"
  by (simp add: hideTooltip_def Let_def split: option.splits)

lemma showTooltip_fields [simp]:
  "debounceTimer (showTooltip el c w) = debounceTimer w"
  "activeElement (showTooltip el c w) = activeElement w"
  "currentCorrection (showTooltip el c w) = Some c"
  "applyingCorrection (showTooltip el c w) = applyingCorrection w"
  "dismissedElement (showTooltip el c w) = dismissedElement w"
  "lastLoggedElement (showTooltip el c w) = lastLoggedElement w"
  "texts (showTooltip el c w) = texts w"
  "indicators (showTooltip el c w) = indicators w"
  "timers (showTooltip el c w) = timers w"
  "timerCounter (showTooltip el c w) = timerCounter w"
  "now (showTooltip el c w) = now w"
  "trace (showTooltip el c w) = trace w"
  "tooltipEl (showTooltip el c w) = Some \<lparr>visible = True, rows = map int [0..<length (changes c)]\<rparr>"
  by (simp_all add: showTooltip_def createTooltip_def Let_def split: option.splits prod.splits)

lemma setText_guarded:
  assumes "applyingCorrection w"
  shows "setTextOnElement el t w =
     (if tagName el = ''INPUT'' \<or> tagName el = ''TEXTAREA'' \<or> isContentEditable el
      then emit (InputDispatched (elemId el))
            (emit (TextWritten (elemId el) t) (w\<lparr>texts := (texts w)(elemId el := t)\<rparr>))
      else w)"
  using assms by (simp add: setTextOnElement_def writeAndDispatch_def handleInput_def)

lemma setText_guarded_fields:
  assumes "applyingCorrection w"
  shows "currentCorrection (setTextOnElement el t w) = currentCorrection w"
    and "tooltipEl (setTextOnElement el t w) = tooltipEl w"
    and "activeElement (setTextOnElement el t w) = activeElement w"
    and "indicators (setTextOnElement el t w) = indicators w"
  using assms by (simp_all add: setText_guarded)

lemma splice1_valid:
  "0 \<le> i \<Longrightarrow> i < int (length xs) \<Longrightarrow> splice1 xs i = take (nat i) xs @ drop (Suc (nat i)) xs"
  by (simp add: splice1_def Let_def min_def)

lemma changeAt_valid:
  "0 \<le> i \<Longrightarrow> i < int (length xs) \<Longrightarrow> changeAt xs i = Some (xs ! nat i)"
  by (simp add: changeAt_def)

lemma handleInput_eligible:
  assumes g: "\<not> applyingCorrection w"
    and r: "resolveEditableHost (Some raw) = Some el"
    and c: "check (shouldCheckElement (Some el))"
  shows "dismissedElement (handleInput raw w)
           = (if sameElement (dismissedElement w) el then None else dismissedElement w)"
    and "activeElement (handleInput raw w) = Some el"
    and "debounceTimer (handleInput raw w) = Some (Suc (timerCounter w))"
    and "timers (handleInput raw w)
           = (case debounceTimer w of
                None \<Rightarrow> timers w
              | Some tid \<Rightarrow> if tid \<noteq> 0 then filter (\<lambda>t. fst t \<noteq> tid) (timers w) else timers w)
             @ [(Suc (timerCounter w), now w + DEBOUNCE_MS, el)]"
    and "trace (handleInput raw w) = trace w"
    and "texts (handleInput raw w) = texts w"
    and "now (handleInput raw w) = now w"
    and "applyingCorrection (handleInput raw w) = False"
    and "indicators (handleInput raw w) = indicators w"
  using g r c
  by (simp_all add: handleInput_def Let_def setTimeout_def clearTimeout_def split: option.splits)

lemma checkGrammar_dismissed:
  assumes "sameElement (dismissedElement w) el"
  shows "checkGrammar el w = emit (CheckGrammarCalled (elemId el)) w"
  using assms by (simp add: checkGrammar_def Let_def)

lemma requests_mark: "requests (emit (CheckGrammarCalled i) w) = requests w"
  by (simp add: requests_def)

lemma checkGrammar_sends:
  assumes "\<not> sameElement (dismissedElement w) el"
    and "MIN_TEXT_LENGTH \<le> length (trim (getTextFromElement w el))"
  shows "checkGrammar el w
     = emit (MessageSent (getTextFromElement w el))
         (showIndicator el (emit (CheckGrammarCalled (elemId el)) w))"
proof -
  have "getTextFromElement (emit (CheckGrammarCalled (elemId el)) w) el = getTextFromElement w el"
    by (rule getText_cong) simp
  with assms show ?thesis by (simp add: checkGrammar_def Let_def)
qed

lemma getInheritedAttr_root:
  "nodeRole el = DocumentElement \<Longrightarrow> getInheritedAttr el name = None"
  by (cases el) simp

lemma getInheritedAttr_own:
  "nodeRole el \<noteq> DocumentElement \<Longrightarrow> getAttribute el name = Some v
     \<Longrightarrow> getInheritedAttr el name = Some (toLowerCase v)"
  by (cases el) (simp add: getAttribute_def)

lemma getInheritedAttr_parent:
  "nodeRole el \<noteq> DocumentElement \<Longrightarrow> getAttribute el name = None
     \<Longrightarrow> getInheritedAttr el name
           = (case parentElement el of None \<Rightarrow> None | Some p \<Rightarrow> getInheritedAttr p name)"
  by (cases el) (simp add: getAttribute_def)

section \<open>Override dominance\<close>

text \<open>
  Claim C2. Whatever the element kind, input type, disabled and read-only flags, aria
  flags, spellcheck, inputmode, autocomplete and role are: when the upward search for
  \<open>data-correctly\<close> (\<open>getInheritedAttr\<close>, from the element through its ancestors, the
  document root excluded) finds "true", the classifier answers \<open>check = true\<close>; when
  it finds "false", the classifier answers \<open>check = false\<close>.
\<close>

theorem override_dominance:
  "(getInheritedAttr el ''data-correctly'' = Some ''true''
      \<longrightarrow> check (shouldCheckElement (Some el)))
   \<and> (getInheritedAttr el ''data-correctly'' = Some ''false''
      \<longrightarrow> \<not> check (shouldCheckElement (Some el)))"
  by (simp add: shouldCheckElement_def)

text \<open>
  A disabled, read-only password field with every excluding hint set is checked
  because its form says "true"; a plain text area that says "false" is not.
\<close>

theorem override_dominance_witness:
  "getInheritedAttr passwordField ''data-correctly'' = Some ''true''
   \<and> check (shouldCheckElement (Some passwordField))
   \<and> getInheritedAttr optedOut ''data-correctly'' = Some ''false''
   \<and> \<not> check (shouldCheckElement (Some optedOut))"
proof -
  have t: "getInheritedAttr passwordField ''data-correctly'' = Some ''true''"
    by (simp add: passwordField_def formForced_def lower_true)
  have f: "getInheritedAttr optedOut ''data-correctly'' = Some ''false''"
    by (simp add: optedOut_def lower_false)
  from override_dominance [of passwordField] t
  have c1: "check (shouldCheckElement (Some passwordField))" by blast
  from override_dominance [of optedOut] f
  have c2: "\<not> check (shouldCheckElement (Some optedOut))" by blast
  from t f c1 c2 show ?thesis by blast
qed

text \<open>Without the override the same password field is rejected.\<close>

lemma password_rejected:
  "\<not> check (shouldCheckElement (Some (Element 2 ''INPUT'' ''password'' False True True [] Ordinary None)))"
  by code_simp

section \<open>Self-write suppression\<close>

text \<open>
  Claim C5. An input event that arrives while \<open>applyingCorrection\<close> is set leaves the
  whole session state as it was. So the write of the diff applier, whose input event
  \<open>setTextOnElement\<close> dispatches under that guard, does not re-arm the debounce timer
  and keeps \<open>activeElement\<close>, \<open>lastLoggedElement\<close> and \<open>dismissedElement\<close>.
\<close>

theorem guard_frame:
  assumes "applyingCorrection w"
  shows "handleInput raw w = w
     \<and> debounceTimer (setTextOnElement el txt w) = debounceTimer w
     \<and> timers (setTextOnElement el txt w) = timers w
     \<and> activeElement (setTextOnElement el txt w) = activeElement w
     \<and> lastLoggedElement (setTextOnElement el txt w) = lastLoggedElement w
     \<and> dismissedElement (setTextOnElement el txt w) = dismissedElement w"
  using assms
  by (simp add: handleInput_guarded setTextOnElement_def writeAndDispatch_def)

theorem guard_frame_witness:
  "applyingCorrection (idle\<lparr>applyingCorrection := True\<rparr>)
   \<and> handleInput textArea (idle\<lparr>applyingCorrection := True\<rparr>) = idle\<lparr>applyingCorrection := True\<rparr>
   \<and> debounceTimer (setTextOnElement textArea ''fixed'' (idle\<lparr>applyingCorrection := True\<rparr>)) = None"
proof -
  have h: "applyingCorrection (idle\<lparr>applyingCorrection := True\<rparr>)" by simp
  have d: "debounceTimer (idle\<lparr>applyingCorrection := True\<rparr>) = None" by (simp add: idle_def)
  from guard_frame [OF h, of textArea textArea "''fixed''"] h d show ?thesis by simp
qed

text \<open>The same event without the guard arms the timer.\<close>

lemma unguarded_input_arms: "debounceTimer (handleInput textArea idle) = Some 1"
  by code_simp

section \<open>Minimum text length\<close>

text \<open>
  Claim C7. When the text of the element, trimmed, is shorter than
  \<open>MIN_TEXT_LENGTH\<close> (10), the debounce callback and the focus-out handler both send
  no request, and neither logs an error.
\<close>

theorem short_text_skipped:
  assumes short: "length (trim (getTextFromElement w el)) < MIN_TEXT_LENGTH"
  shows "requests (debounceCallback el w) = requests w
     \<and> errorsLogged (debounceCallback el w) = errorsLogged w
     \<and> (resolveEditableHost (Some raw) = Some el \<longrightarrow>
          requests (handleFocusOut raw rel w) = requests w
          \<and> errorsLogged (handleFocusOut raw rel w) = errorsLogged w)"
proof -
  have a: "getTextFromElement (w\<lparr>debounceTimer := None\<rparr>) el = getTextFromElement w el"
    by (rule getText_cong) simp
  have tr: "trace (debounceCallback el w) = trace w @ [CheckGrammarCalled (elemId el)]"
    using short a by (simp add: debounceCallback_def checkGrammar_short)
  have 1: "requests (debounceCallback el w) = requests w"
    by (simp add: requests_def tr)
  have 2: "errorsLogged (debounceCallback el w) = errorsLogged w"
    by (simp add: errorsLogged_def tr)
  have 3: "requests (handleFocusOut raw rel w) = requests w
          \<and> errorsLogged (handleFocusOut raw rel w) = errorsLogged w"
    if r: "resolveEditableHost (Some raw) = Some el"
  proof -
    define w1 where "w1 = (case debounceTimer w of None \<Rightarrow> w
        | Some tid \<Rightarrow> if tid \<noteq> 0 then (clearTimeout tid w)\<lparr>debounceTimer := None\<rparr> else w)"
    have t1: "texts w1 = texts w" and tr1: "trace w1 = trace w"
      by (simp_all add: w1_def split: option.splits)
    have s1: "length (trim (getTextFromElement w1 el)) < MIN_TEXT_LENGTH"
      using short getText_cong [OF t1] by simp
    have "handleFocusOut raw rel w = w \<or> handleFocusOut raw rel w = w1"
      using r s1 by (simp add: handleFocusOut_def Let_def w1_def [symmetric])
    then show ?thesis using tr1 by (auto simp: requests_def errorsLogged_def)
  qed
  from 1 2 3 show ?thesis by blast
qed

lemma shortDraft_short: "length (trim (getTextFromElement shortDraft textArea)) < MIN_TEXT_LENGTH"
  by code_simp

theorem short_text_skipped_witness:
  "length (trim (getTextFromElement shortDraft textArea)) < MIN_TEXT_LENGTH
   \<and> requests (debounceCallback textArea shortDraft) = requests shortDraft
   \<and> errorsLogged (debounceCallback textArea shortDraft) = errorsLogged shortDraft
   \<and> resolveEditableHost (Some textArea) = Some textArea
   \<and> requests (handleFocusOut textArea False shortDraft) = requests shortDraft
   \<and> errorsLogged (handleFocusOut textArea False shortDraft) = errorsLogged shortDraft"
  using short_text_skipped [OF shortDraft_short, of textArea False] shortDraft_short textArea_host
  by blast

section \<open>Placement\<close>

text \<open>
  Claim C8. For the anchor box top 500, left 100, width 200, height 30, a tooltip of
  width 300 and height 150, a viewport of 800 by 600 and no scroll, the space below is
  70, less than 150 + 8 + 10 = 168, the space above is 500, so the placement is
  "above" at top 500 - 150 - 8 = 342, which the clamp into [10, 440] keeps.
\<close>

theorem placement_example:
  "positionTooltip \<lparr>rectTop = 0, rectLeft = 0, rectWidth = 300, rectHeight = 150\<rparr>
      \<lparr>rectTop = 500, rectLeft = 100, rectWidth = 200, rectHeight = 30\<rparr>
      \<lparr>innerWidth = 800, innerHeight = 600, scrollX = 0, scrollY = 0\<rparr>
   = \<lparr>placement = ''above'', styleTop = 342, styleLeft = 100,
      datasetPlacement = ''above'', arrowOffset = 100\<rparr>"
  by (simp add: positionTooltip_def rectBottom_def TOOLTIP_GAP_def VIEWPORT_PADDING_def)

section \<open>Accepting one change\<close>

text \<open>
  Claim C10. With no active element, with no current correction, or with an index
  that names no change (negative, or not below the number of changes),
  \<open>acceptSingleCorrection\<close> returns the state it was given: text, changes, tooltip
  and trace are the same, so nothing was written.
\<close>

theorem acceptOne_noop:
  assumes "activeElement w = None \<or> currentCorrection w = None
     \<or> (\<exists>cc. currentCorrection w = Some cc \<and> (i < 0 \<or> int (length (changes cc)) \<le> i))"
  shows "acceptSingleCorrection i w = Inr w"
  using assms
  by (auto simp: acceptSingleCorrection_def changeAt_def split: option.splits)

theorem acceptOne_noop_witness:
  "acceptSingleCorrection 0 idle = Inr idle
   \<and> acceptSingleCorrection 0 (idle\<lparr>activeElement := Some textArea\<rparr>)
       = Inr (idle\<lparr>activeElement := Some textArea\<rparr>)
   \<and> acceptSingleCorrection 1 (reviewing ''teh cat'' [teh]) = Inr (reviewing ''teh cat'' [teh])
   \<and> acceptSingleCorrection (- 1) (reviewing ''teh cat'' [teh]) = Inr (reviewing ''teh cat'' [teh])"
proof -
  have a: "activeElement idle = None" by (simp add: idle_def)
  have b: "currentCorrection (idle\<lparr>activeElement := Some textArea\<rparr>) = None"
    by (simp add: idle_def)
  have c: "currentCorrection (reviewing ''teh cat'' [teh])
             = Some \<lparr>corrected = ''teh cat'', changes = [teh]\<rparr>"
    by (simp add: reviewing_def)
  have 1: "acceptSingleCorrection 0 idle = Inr idle"
    using acceptOne_noop [of idle 0] a by blast
  have 2: "acceptSingleCorrection 0 (idle\<lparr>activeElement := Some textArea\<rparr>)
       = Inr (idle\<lparr>activeElement := Some textArea\<rparr>)"
    using acceptOne_noop [of "idle\<lparr>activeElement := Some textArea\<rparr>" 0] b by blast
  have 3: "acceptSingleCorrection 1 (reviewing ''teh cat'' [teh]) = Inr (reviewing ''teh cat'' [teh])"
    using acceptOne_noop [of "reviewing ''teh cat'' [teh]" 1] c by simp
  have 4: "acceptSingleCorrection (- 1) (reviewing ''teh cat'' [teh])
             = Inr (reviewing ''teh cat'' [teh])"
    using acceptOne_noop [of "reviewing ''teh cat'' [teh]" "- 1"] c by simp
  from 1 2 3 4 show ?thesis by blast
qed

text \<open>
  What \<open>acceptSingleCorrection\<close> returns for an index of an existing change, in a
  session with an active element and a tooltip element.
\<close>

lemma acceptOne_result:
  assumes ae: "activeElement w = Some ae"
    and cc: "currentCorrection w = Some cc"
    and tip: "tooltipEl w = Some tip"
    and lo: "0 \<le> i" and hi: "i < int (length (changes cc))"
  defines "ch \<equiv> changes cc ! nat i"
  defines "updated \<equiv> replace (getTextFromElement w ae) (original ch) (replacement ch)"
  defines "w1 \<equiv> setTextOnElement ae updated (w\<lparr>applyingCorrection := True\<rparr>)"
  defines "remaining \<equiv> take (nat i) (changes cc) @ drop (Suc (nat i)) (changes cc)"
  defines "tip1 \<equiv> tip\<lparr>rows := remove1 i (rows tip)\<rparr>"
  defines "w4 \<equiv> w1\<lparr>applyingCorrection := False,
                     currentCorrection := Some (cc\<lparr>changes := remaining, corrected := updated\<rparr>),
                     tooltipEl := Some tip1\<rparr>"
  shows "acceptSingleCorrection i w =
      (if remaining = [] then Inr (hideTooltip w4)
       else Inr (w4\<lparr>tooltipEl := Some (tip1\<lparr>rows := map int [0..<length (rows tip1)]\<rparr>)\<rparr>))"
proof -
  have g: "applyingCorrection (w\<lparr>applyingCorrection := True\<rparr>)" by simp
  have c1: "currentCorrection w1 = Some cc"
    unfolding w1_def using setText_guarded_fields(1) [OF g] cc by simp
  have t1: "tooltipEl w1 = Some tip"
    unfolding w1_def using setText_guarded_fields(2) [OF g] tip by simp
  have gt: "getTextFromElement (w\<lparr>applyingCorrection := True\<rparr>) ae = getTextFromElement w ae"
    by (rule getText_cong) simp
  show ?thesis
    using ae cc lo hi c1 t1
    by (simp add: acceptSingleCorrection_def changeAt_valid splice1_valid Let_def
          ch_def [symmetric] updated_def [symmetric] w1_def [symmetric]
          remaining_def [symmetric] tip1_def [symmetric] w4_def)
qed

text \<open>
  \<open>showTooltip\<close> is the only place that stores a correction, and it leaves a tooltip
  element behind; \<open>tooltipEl\<close> is never reset. So a session with a current correction
  has a tooltip element.
\<close>

lemma showTooltip_creates: "tooltipEl (showTooltip el c w) \<noteq> None"
  by simp

text \<open>
  Claim C9. With an active element, a current correction with changes \<open>cs\<close> and an
  index \<open>i\<close> of one of them, \<open>acceptSingleCorrection\<close> leaves the changes
  \<open>take i cs @ drop (i + 1) cs\<close>: one fewer, the others in their order. When that list
  is not empty it is the \<open>changes\<close> of the current correction and the tooltip stays as
  it was; when it is empty the tooltip is hidden (and \<open>hideTooltip\<close> drops the
  correction).
\<close>

theorem acceptOne_removes_one:
  assumes ae: "activeElement w = Some ae"
    and cc: "currentCorrection w = Some cc"
    and tip: "tooltipEl w = Some tip"
    and lo: "0 \<le> i" and hi: "i < int (length (changes cc))"
  shows "\<exists>w'. acceptSingleCorrection i w = Inr w'
     \<and> (let remaining = take (nat i) (changes cc) @ drop (Suc (nat i)) (changes cc) in
          Suc (length remaining) = length (changes cc)
          \<and> (if remaining = []
              then currentCorrection w' = None \<and> map_option visible (tooltipEl w') = Some False
              else map_option changes (currentCorrection w') = Some remaining
                   \<and> map_option visible (tooltipEl w') = Some (visible tip)))"
proof -
  define remaining where "remaining = take (nat i) (changes cc) @ drop (Suc (nat i)) (changes cc)"
  note res = acceptOne_result [OF ae cc tip lo hi, folded remaining_def]
  have len: "Suc (length remaining) = length (changes cc)"
    using lo hi by (simp add: remaining_def)
  have "\<exists>w'. acceptSingleCorrection i w = Inr w'
     \<and> Suc (length remaining) = length (changes cc)
     \<and> (if remaining = []
         then currentCorrection w' = None \<and> map_option visible (tooltipEl w') = Some False
         else map_option changes (currentCorrection w') = Some remaining
              \<and> map_option visible (tooltipEl w') = Some (visible tip))"
  proof (cases "remaining = []")
    case True
    with res len show ?thesis by (simp add: hideTooltip_visible)
  next
    case False
    with res len show ?thesis by simp
  qed
  then show ?thesis unfolding Let_def remaining_def .
qed

theorem acceptOne_removes_one_witness:
  "activeElement (reviewing ''teh cat recieve'' [teh, recieve]) = Some textArea
   \<and> (\<exists>w'. acceptSingleCorrection 0 (reviewing ''teh cat recieve'' [teh, recieve]) = Inr w'
         \<and> map_option changes (currentCorrection w') = Some [recieve]
         \<and> map_option visible (tooltipEl w') = Some True)
   \<and> (\<exists>w'. acceptSingleCorrection 0 (reviewing ''teh cat'' [teh]) = Inr w'
         \<and> currentCorrection w' = None
         \<and> map_option visible (tooltipEl w') = Some False)"
proof -
  have a: "activeElement (reviewing t cs) = Some textArea" for t cs
    by (simp add: reviewing_def)
  have c: "currentCorrection (reviewing t cs) = Some \<lparr>corrected = t, changes = cs\<rparr>" for t cs
    by (simp add: reviewing_def)
  have p: "tooltipEl (reviewing t cs) = Some \<lparr>visible = True, rows = map int [0..<length cs]\<rparr>" for t cs
    by (simp add: reviewing_def)
  have 1: "\<exists>w'. acceptSingleCorrection 0 (reviewing ''teh cat recieve'' [teh, recieve]) = Inr w'
         \<and> map_option changes (currentCorrection w') = Some [recieve]
         \<and> map_option visible (tooltipEl w') = Some True"
    using acceptOne_removes_one [OF a c p, of 0 "''teh cat recieve''" "[teh, recieve]"]
    by simp
  have 2: "\<exists>w'. acceptSingleCorrection 0 (reviewing ''teh cat'' [teh]) = Inr w'
         \<and> currentCorrection w' = None
         \<and> map_option visible (tooltipEl w') = Some False"
    using acceptOne_removes_one [OF a c p, of 0 "''teh cat''" "[teh]"]
    by simp
  from a 1 2 show ?thesis by blast
qed

section \<open>First-occurrence substitution\<close>

text \<open>
  \<open>indexOf\<close> finds the first occurrence, and a replacement without a dollar sign is
  inserted as it is.
\<close>

lemma startsWith_iff: "startsWith s p \<longleftrightarrow> (\<exists>t. s = p @ t)"
  by (induction s p rule: startsWith.induct) auto

lemma indexOf_None_iff: "indexOf s p = None \<longleftrightarrow> (\<forall>a b. s \<noteq> a @ p @ b)"
proof (induction s)
  case Nil
  then show ?case by auto
next
  case (Cons c cs)
  show ?case
  proof (cases "startsWith (c # cs) p")
    case True
    then obtain t where "c # cs = p @ t" by (auto simp: startsWith_iff)
    then have "c # cs = [] @ p @ t" by simp
    with True show ?thesis by (metis indexOf.simps(2) option.distinct(1))
  next
    case False
    have "(\<forall>a b. c # cs \<noteq> a @ p @ b) \<longleftrightarrow> (\<forall>a b. cs \<noteq> a @ p @ b)"
    proof
      assume h: "\<forall>a b. c # cs \<noteq> a @ p @ b"
      show "\<forall>a b. cs \<noteq> a @ p @ b"
      proof (intro allI notI)
        fix a b assume "cs = a @ p @ b"
        then have "c # cs = (c # a) @ p @ b" by simp
        with h show False by blast
      qed
    next
      assume h: "\<forall>a b. cs \<noteq> a @ p @ b"
      show "\<forall>a b. c # cs \<noteq> a @ p @ b"
      proof (intro allI notI)
        fix a b assume e: "c # cs = a @ p @ b"
        show False
        proof (cases a)
          case Nil
          with e have "startsWith (c # cs) p" by (auto simp: startsWith_iff)
          with False show False by simp
        next
          case (Cons x xs)
          with e have "cs = xs @ p @ b" by simp
          with h show False by blast
        qed
      qed
    qed
    with False Cons.IH show ?thesis by simp
  qed
qed

lemma indexOf_Some:
  "indexOf s p = Some k \<Longrightarrow>
     s = take k s @ p @ drop (k + length p) s \<and> (\<forall>j<k. \<not> startsWith (drop j s) p)"
proof (induction s arbitrary: k)
  case Nil
  then show ?case by (simp split: if_splits)
next
  case (Cons c cs)
  show ?case
  proof (cases "startsWith (c # cs) p")
    case True
    with Cons.prems have "k = 0" by simp
    with True show ?thesis by (auto simp: startsWith_iff)
  next
    case False
    with Cons.prems obtain k' where k: "k = Suc k'" "indexOf cs p = Some k'" by auto
    from Cons.IH [OF k(2)] have ih: "cs = take k' cs @ p @ drop (k' + length p) cs"
      "\<forall>j<k'. \<not> startsWith (drop j cs) p" by auto
    have "\<not> startsWith (drop j (c # cs)) p" if "j < k" for j
      using that False ih(2) k(1) by (cases j) auto
    with ih(1) k(1) show ?thesis by simp
  qed
qed

lemma getSubstitution_literal:
  "CHR ''$'' \<notin> set r \<Longrightarrow> getSubstitution m a b r = r"
  by (induction m a b r rule: getSubstitution.induct) auto

lemma replace_absent: "indexOf s p = None \<Longrightarrow> replace s p r = s"
  by (simp add: replace_def)

lemma replace_literal:
  "CHR ''$'' \<notin> set r \<Longrightarrow> indexOf s p = Some k \<Longrightarrow>
     replace s p r = take k s @ r @ drop (k + length p) s"
  by (simp add: replace_def Let_def getSubstitution_literal)

text \<open>
  So a change whose replacement has no dollar sign is applied as Claim C1 says: the
  text written to an editable active element is the live text with the first
  occurrence of \<open>original\<close> replaced by \<open>replacement\<close>, or the live text itself when
  \<open>original\<close> does not occur.
\<close>

lemma acceptOne_literal:
  assumes ae: "activeElement w = Some ae"
    and cc: "currentCorrection w = Some cc"
    and tip: "tooltipEl w = Some tip"
    and lo: "0 \<le> i" and hi: "i < int (length (changes cc))"
    and ed: "tagName ae = ''INPUT'' \<or> tagName ae = ''TEXTAREA'' \<or> isContentEditable ae"
    and nd: "CHR ''$'' \<notin> set (replacement (changes cc ! nat i))"
  shows "\<exists>w'. acceptSingleCorrection i w = Inr w'
     \<and> texts w' (elemId ae)
         = (case indexOf (getTextFromElement w ae) (original (changes cc ! nat i)) of
              None \<Rightarrow> getTextFromElement w ae
            | Some k \<Rightarrow> take k (getTextFromElement w ae) @ replacement (changes cc ! nat i)
                @ drop (k + length (original (changes cc ! nat i))) (getTextFromElement w ae))"
proof -
  define ch where "ch = changes cc ! nat i"
  define live where "live = getTextFromElement w ae"
  define w1 where "w1 = setTextOnElement ae (replace live (original ch) (replacement ch))
      (w\<lparr>applyingCorrection := True\<rparr>)"
  have g: "applyingCorrection (w\<lparr>applyingCorrection := True\<rparr>)" by simp
  have t1: "texts w1 (elemId ae) = replace live (original ch) (replacement ch)"
    unfolding w1_def setText_guarded [OF g] using ed by auto
  have r: "replace live (original ch) (replacement ch)
      = (case indexOf live (original ch) of None \<Rightarrow> live
         | Some k \<Rightarrow> take k live @ replacement ch @ drop (k + length (original ch)) live)"
    using nd by (simp add: replace_def Let_def getSubstitution_literal ch_def split: option.splits)
  note res = acceptOne_result [OF ae cc tip lo hi, folded ch_def live_def, folded w1_def]
  show ?thesis
    unfolding ch_def [symmetric] live_def [symmetric] r [symmetric] t1 [symmetric]
    by (simp add: res)
qed

text \<open>
  Claim C1 says that the accepted change puts \<open>Change.replacement\<close> into the text
  character for character. The code passes the replacement to
  \<open>String.prototype.replace\<close> as a template, so \<open>$'\<close>, \<open>$&\<close>, \<open>$`\<close> and \<open>$$\<close>
  in it are expanded. Accepting the change from "the $ sign" to "the '$' sign" in
  "Put the $ sign first" writes "Put the ' first sign first", through
  \<open>acceptSingleCorrection\<close> and through \<open>acceptCorrections\<close> alike; the claim asks for
  "Put the '$' sign first".
\<close>

theorem dollar_pattern_expanded:
  "(case acceptSingleCorrection 0 (reviewing ''Put the $ sign first'' [dollarFix]) of
      Inl e \<Rightarrow> []
    | Inr w' \<Rightarrow> writes w') = [(4, ''Put the ' first sign first'')]
   \<and> writes (acceptCorrections (reviewing ''Put the $ sign first'' [dollarFix]))
       = [(4, ''Put the ' first sign first'')]"
  by code_simp

text \<open>A replacement without a dollar sign: only the first "teh" is replaced.\<close>

lemma first_occurrence_only:
  "writes (acceptCorrections (reviewing ''teh cat and teh dog'' [teh])) = [(4, ''the cat and teh dog'')]"
  by code_simp

section \<open>Dismissal\<close>

text \<open>
  Claim C4. The Dismiss button records the active element as dismissed. While an
  element is recorded so, the debounce callback and the focus-out handler send no
  request for it and leave the marker. The next eligible input event on that element
  (outside the diff applier's own write) clears the marker and arms the debounce timer
  itself: \<open>debounceTimer\<close> names a new timeout, pending for that element,
  \<open>DEBOUNCE_MS\<close> from now.
\<close>

theorem dismissal_suppresses_until_input:
  "dismissedElement (dismissClick w) = activeElement w
   \<and> (sameElement (dismissedElement w) el \<longrightarrow>
        requests (debounceCallback el w) = requests w
        \<and> dismissedElement (debounceCallback el w) = dismissedElement w
        \<and> (resolveEditableHost (Some raw) = Some el \<longrightarrow>
             requests (handleFocusOut raw rel w) = requests w
             \<and> dismissedElement (handleFocusOut raw rel w) = dismissedElement w)
        \<and> (resolveEditableHost (Some raw) = Some el \<and> check (shouldCheckElement (Some el))
             \<and> \<not> applyingCorrection w \<longrightarrow>
             dismissedElement (handleInput raw w) = None
             \<and> debounceTimer (handleInput raw w) = Some (Suc (timerCounter w))
             \<and> (Suc (timerCounter w), now w + DEBOUNCE_MS, el) \<in> set (timers (handleInput raw w))))"
proof -
  have 1: "dismissedElement (dismissClick w) = activeElement w"
    by (simp add: dismissClick_def)
  have 2: "requests (debounceCallback el w) = requests w
        \<and> dismissedElement (debounceCallback el w) = dismissedElement w"
    if d: "sameElement (dismissedElement w) el"
  proof -
    have "sameElement (dismissedElement (w\<lparr>debounceTimer := None\<rparr>)) el" using d by simp
    then show ?thesis
      by (simp add: debounceCallback_def checkGrammar_dismissed requests_def)
  qed
  have 3: "requests (handleFocusOut raw rel w) = requests w
             \<and> dismissedElement (handleFocusOut raw rel w) = dismissedElement w"
    if d: "sameElement (dismissedElement w) el" and r: "resolveEditableHost (Some raw) = Some el"
  proof -
    define w1 where "w1 = (case debounceTimer w of None \<Rightarrow> w
        | Some tid \<Rightarrow> if tid \<noteq> 0 then (clearTimeout tid w)\<lparr>debounceTimer := None\<rparr> else w)"
    have d1: "dismissedElement w1 = dismissedElement w" and tr1: "trace w1 = trace w"
      by (simp_all add: w1_def split: option.splits)
    have s: "sameElement (dismissedElement (w1\<lparr>activeElement := Some el\<rparr>)) el"
      using d d1 by simp
    have "handleFocusOut raw rel w = w \<or> handleFocusOut raw rel w = w1
          \<or> handleFocusOut raw rel w = emit (CheckGrammarCalled (elemId el)) (w1\<lparr>activeElement := Some el\<rparr>)"
      using r checkGrammar_dismissed [OF s]
      by (simp add: handleFocusOut_def Let_def w1_def [symmetric])
    then show ?thesis using tr1 d1 by (auto simp: requests_def)
  qed
  have 4: "dismissedElement (handleInput raw w) = None
             \<and> debounceTimer (handleInput raw w) = Some (Suc (timerCounter w))
             \<and> (Suc (timerCounter w), now w + DEBOUNCE_MS, el) \<in> set (timers (handleInput raw w))"
    if d: "sameElement (dismissedElement w) el" and r: "resolveEditableHost (Some raw) = Some el"
      and c: "check (shouldCheckElement (Some el))" and g: "\<not> applyingCorrection w"
    using handleInput_eligible(1,3,4) [OF g r c] d by simp
  from 1 2 3 4 show ?thesis by blast
qed

lemma dismissed_facts:
  "sameElement (dismissedElement dismissed) textArea" "\<not> applyingCorrection dismissed"
  "timerCounter dismissed = 0" "now dismissed = 0" "requests dismissed = []"
  by (simp_all add: dismissed_def draft_def idle_def sameElement_def requests_def)

theorem dismissal_suppresses_until_input_witness:
  "sameElement (dismissedElement dismissed) textArea
   \<and> dismissedElement (dismissClick (draft\<lparr>activeElement := Some textArea\<rparr>)) = Some textArea
   \<and> requests (debounceCallback textArea dismissed) = []
   \<and> requests (handleFocusOut textArea False dismissed) = []
   \<and> dismissedElement (handleInput textArea dismissed) = None
   \<and> debounceTimer (handleInput textArea dismissed) = Some 1
   \<and> (1, 1500, textArea) \<in> set (timers (handleInput textArea dismissed))"
proof -
  note d = dismissal_suppresses_until_input [of dismissed textArea textArea False]
  have k: "dismissedElement (dismissClick (draft\<lparr>activeElement := Some textArea\<rparr>)) = Some textArea"
    using dismissal_suppresses_until_input [of "draft\<lparr>activeElement := Some textArea\<rparr>"]
    by simp
  from d k dismissed_facts textArea_host textArea_eligible show ?thesis
    by (simp add: DEBOUNCE_MS_def)
qed

text \<open>
  Without the marker the same callback sends the request, and so does the timer that
  the lifting event armed, once the quiet period is over.
\<close>

lemma undismissed_sends: "requests (debounceCallback textArea draft) = [''I has teh cat.'']"
  by code_simp

lemma lifted_check_runs:
  "requests (advance 1500 (handleInput textArea dismissed)) = [''I has teh cat.'']"
  by code_simp

section \<open>Indicator\<close>

text \<open>In any state the continuation of a check calls \<open>removeIndicator\<close> once and leaves no indicator.\<close>

lemma resume_clears:
  "indicators (checkGrammarResume el out w) = 0
   \<and> removals (checkGrammarResume el out w) = removals w @ [indicators w]"
  by (cases out; simp add: checkGrammarResume_def removals_def Let_def split: response.splits)

text \<open>
  Claim C6. A check that gets past the suppression and length tests shows one
  indicator. Whatever the outcome (a successful response with changes, a successful
  response without changes, an unsuccessful response, a rejected request), the
  continuation removes that indicator in one call of \<open>removeIndicator\<close> and none is
  left.
\<close>

theorem indicator_removed_once:
  assumes "\<not> sameElement (dismissedElement w) el"
    and "MIN_TEXT_LENGTH \<le> length (trim (getTextFromElement w el))"
  shows "indicators (checkGrammar el w) = 1
     \<and> indicators (checkGrammarResume el out (checkGrammar el w)) = 0
     \<and> removals (checkGrammarResume el out (checkGrammar el w))
         = removals (checkGrammar el w) @ [1]"
proof -
  have i: "indicators (checkGrammar el w) = 1"
    by (simp add: checkGrammar_sends [OF assms])
  from resume_clears [of el out "checkGrammar el w"] i show ?thesis by simp
qed

lemma draft_facts:
  "\<not> sameElement (dismissedElement draft) textArea"
  "MIN_TEXT_LENGTH \<le> length (trim (getTextFromElement draft textArea))"
  by code_simp+

theorem indicator_removed_once_witness:
  "indicators (checkGrammar textArea draft) = 1
   \<and> removals (checkGrammar textArea draft) = [0]
   \<and> indicators (checkGrammarResume textArea
        (Resolved (Success \<lparr>corrected = ''I have the cat.'', changes = [teh]\<rparr>))
        (checkGrammar textArea draft)) = 0
   \<and> removals (checkGrammarResume textArea
        (Resolved (Success \<lparr>corrected = ''I have the cat.'', changes = [teh]\<rparr>))
        (checkGrammar textArea draft)) = [0, 1]
   \<and> removals (checkGrammarResume textArea
        (Resolved (Success \<lparr>corrected = ''I has teh cat.'', changes = []\<rparr>))
        (checkGrammar textArea draft)) = [0, 1]
   \<and> removals (checkGrammarResume textArea (Resolved (Failure ''No API key configured.''))
        (checkGrammar textArea draft)) = [0, 1]
   \<and> removals (checkGrammarResume textArea (Rejected ''Extension context invalidated.'')
        (checkGrammar textArea draft)) = [0, 1]"
proof -
  note i = indicator_removed_once [OF draft_facts]
  have r: "removals (checkGrammar textArea draft) = [0]" by code_simp
  from i [of "Resolved (Success \<lparr>corrected = ''I have the cat.'', changes = [teh]\<rparr>)"]
    i [of "Resolved (Success \<lparr>corrected = ''I has teh cat.'', changes = []\<rparr>)"]
    i [of "Resolved (Failure ''No API key configured.'')"]
    i [of "Rejected ''Extension context invalidated.''"] r
  show ?thesis by simp
qed

section \<open>Debounce coalescing\<close>

lemma advance_not_due:
  assumes "\<forall>x \<in> set (timers w). t < fst (snd x)"
  shows "advance t w = w\<lparr>now := max (now w) t\<rparr>"
proof -
  have "filter (\<lambda>x. fst (snd x) \<le> t) (timers w) = []"
    using assms by (auto simp: filter_empty_conv)
  moreover have "filter (\<lambda>x. \<not> fst (snd x) \<le> t) (timers w) = timers w"
    using assms by (auto simp: filter_id_conv)
  ultimately show ?thesis by (simp add: advance_def Let_def)
qed

lemma advance_fires:
  assumes "timers w = [(tid, d, el)]" and "d \<le> t"
  shows "advance t w = debounceCallback el (w\<lparr>timers := [], now := max (now w) t\<rparr>)"
  using assms by (simp add: advance_def Let_def)

lemma hostId_resolved: "resolveEditableHost (Some raw) = Some el \<Longrightarrow> hostId raw = elemId el"
  by (simp add: hostId_def)

lemma armed_timers:
  "armed el d w \<Longrightarrow> \<exists>tid. tid \<noteq> 0 \<and> debounceTimer w = Some tid \<and> timers w = [(tid, d, el)]"
  by (auto simp: armed_def split: option.splits)

lemma step_armed:
  fixes s :: string
  assumes rdy: "ready el t w"
    and r: "resolveEditableHost (Some raw) = Some el"
    and c: "check (shouldCheckElement (Some el))"
  defines "w' \<equiv> handleInput raw ((advance t w)\<lparr>texts := (texts (advance t w))(hostId raw := s)\<rparr>)"
  shows "armed el (t + DEBOUNCE_MS) w'" and "trace w' = trace w"
    and "texts w' (elemId el) = s" and "now w' = t"
proof -
  have nd: "\<forall>x \<in> set (timers w). t < fst (snd x)"
    using rdy by (auto simp: ready_def dest: armed_timers)
  define v where "v = (w\<lparr>now := max (now w) t\<rparr>)\<lparr>texts := (texts w)(elemId el := s)\<rparr>"
  have w': "w' = handleInput raw v"
    by (simp add: w'_def v_def advance_not_due [OF nd] hostId_resolved [OF r])
  have g: "\<not> applyingCorrection v" using rdy by (simp add: v_def ready_def)
  have nv: "now v = t" using rdy by (simp add: v_def ready_def max_def)
  note h = handleInput_eligible [OF g r c]
  have tm: "timers w' = [(Suc (timerCounter v), t + DEBOUNCE_MS, el)]"
  proof -
    from rdy consider "timers w = []" | "armed el (now w + DEBOUNCE_MS) w"
      by (auto simp: ready_def)
    then show ?thesis
    proof cases
      case 1
      then have "timers v = []" by (simp add: v_def)
      then show ?thesis unfolding w' h(4) using nv by (simp split: option.splits)
    next
      case 2
      then obtain tid where "tid \<noteq> 0" "debounceTimer w = Some tid"
        "timers w = [(tid, now w + DEBOUNCE_MS, el)]"
        using armed_timers by blast
      then have "tid \<noteq> 0" "debounceTimer v = Some tid" "timers v = [(tid, now w + DEBOUNCE_MS, el)]"
        by (simp_all add: v_def)
      then show ?thesis unfolding w' h(4) using nv by simp
    qed
  qed
  have ds: "\<not> sameElement (dismissedElement w') el"
    unfolding w' h(1) by (simp add: sameElement_def)
  show "armed el (t + DEBOUNCE_MS) w'"
    using tm ds by (simp add: armed_def w' h(3) h(7) h(8) nv)
  show "trace w' = trace w" unfolding w' h(5) by (simp add: v_def)
  show "texts w' (elemId el) = s" unfolding w' h(6) by (simp add: v_def)
  show "now w' = t" unfolding w' h(7) by (rule nv)
qed

lemma typing_armed:
  assumes r: "resolveEditableHost (Some raw) = Some el"
    and c: "check (shouldCheckElement (Some el))"
  shows "evs \<noteq> [] \<Longrightarrow> rapid evs \<Longrightarrow> ready el (fst (hd evs)) w \<Longrightarrow>
     armed el (fst (last evs) + DEBOUNCE_MS) (typing raw evs w)
     \<and> trace (typing raw evs w) = trace w
     \<and> texts (typing raw evs w) (elemId el) = snd (last evs)
     \<and> now (typing raw evs w) = fst (last evs)"
proof (induction evs arbitrary: w)
  case Nil
  then show ?case by simp
next
  case (Cons e rest)
  obtain t s where e: "e = (t, s)" by (cases e)
  define w1 where "w1 = handleInput raw ((advance t w)\<lparr>texts := (texts (advance t w))(hostId raw := s)\<rparr>)"
  from Cons.prems(3) e have rdy: "ready el t w" by simp
  note st = step_armed [OF rdy r c, of s, folded w1_def]
  have ty: "typing raw (e # rest) w = typing raw rest w1"
    by (simp add: e w1_def)
  show ?case
  proof (cases rest)
    case Nil
    with st ty e show ?thesis by simp
  next
    case (Cons e2 rest2)
    with Cons.prems(2) e have gap: "t \<le> fst e2" "fst e2 < t + DEBOUNCE_MS" and rp: "rapid rest"
      by simp_all
    have "\<not> applyingCorrection w1" using st(1) by (auto simp: armed_def split: option.splits)
    with st gap have "ready el (fst (hd rest)) w1"
      by (simp add: ready_def Cons)
    from Cons.IH [OF _ rp this] Cons have
      "armed el (fst (last rest) + DEBOUNCE_MS) (typing raw rest w1)
       \<and> trace (typing raw rest w1) = trace w1
       \<and> texts (typing raw rest w1) (elemId el) = snd (last rest)
       \<and> now (typing raw rest w1) = fst (last rest)" by simp
    with ty st(2) Cons show ?thesis by simp
  qed
qed


lemma fire_armed:
  assumes a: "armed el d w" and due: "d \<le> t"
  defines "w' \<equiv> advance t w"
  shows "trace w' = trace w @ CheckGrammarCalled (elemId el) #
            (if length (trim (getTextFromElement w el)) < MIN_TEXT_LENGTH then []
             else [RemoveIndicatorCalled (indicators w), IndicatorShown (elemId el),
                   MessageSent (getTextFromElement w el)])"
    and "texts w' = texts w" and "timers w' = []" and "debounceTimer w' = None"
proof -
  from armed_timers [OF a] obtain tid where tm: "timers w = [(tid, d, el)]" by blast
  define v where "v = w\<lparr>timers := [], now := max (now w) t, debounceTimer := None\<rparr>"
  have w': "w' = checkGrammar el v"
    by (simp add: w'_def advance_fires [OF tm due] debounceCallback_def v_def)
  have nd: "\<not> sameElement (dismissedElement v) el"
    using a by (auto simp: armed_def v_def split: option.splits)
  have gt: "getTextFromElement v el = getTextFromElement w el"
    by (rule getText_cong) (simp add: v_def)
  show "trace w' = trace w @ CheckGrammarCalled (elemId el) #
            (if length (trim (getTextFromElement w el)) < MIN_TEXT_LENGTH then []
             else [RemoveIndicatorCalled (indicators w), IndicatorShown (elemId el),
                   MessageSent (getTextFromElement w el)])"
  proof (cases "length (trim (getTextFromElement w el)) < MIN_TEXT_LENGTH")
    case True
    then have "length (trim (getTextFromElement v el)) < MIN_TEXT_LENGTH" using gt by simp
    from checkGrammar_short [OF this] True show ?thesis by (simp add: w' v_def)
  next
    case False
    then have "MIN_TEXT_LENGTH \<le> length (trim (getTextFromElement v el))" using gt by simp
    from checkGrammar_sends [OF nd this] False gt show ?thesis by (simp add: w' v_def)
  qed
  have "texts w' = texts w \<and> timers w' = [] \<and> debounceTimer w' = None"
  proof (cases "length (trim (getTextFromElement v el)) < MIN_TEXT_LENGTH")
    case True
    from checkGrammar_short [OF this] show ?thesis by (simp add: w' v_def)
  next
    case False
    then have "MIN_TEXT_LENGTH \<le> length (trim (getTextFromElement v el))" by simp
    from checkGrammar_sends [OF nd this] show ?thesis by (simp add: w' v_def)
  qed
  then show "texts w' = texts w" and "timers w' = []" and "debounceTimer w' = None" by simp_all
qed

lemma armed_texts: "armed el d (w\<lparr>texts := f\<rparr>) = armed el d w"
  by (simp add: armed_def split: option.splits)

text \<open>When a timeout is pending as in \<open>armed\<close>, the next input event leaves only the new one.\<close>

lemma rearm_cancels_pending:
  assumes "armed e0 d w" and "resolveEditableHost (Some raw) = Some el"
    and "check (shouldCheckElement (Some el))"
  shows "timers (handleInput raw w) = [(Suc (timerCounter w), now w + DEBOUNCE_MS, el)]"
proof -
  from armed_timers [OF assms(1)] obtain tid where
    t: "tid \<noteq> 0" "debounceTimer w = Some tid" "timers w = [(tid, d, e0)]" by blast
  have g: "\<not> applyingCorrection w" using assms(1) by (auto simp: armed_def split: option.splits)
  show ?thesis unfolding handleInput_eligible(4) [OF g assms(2,3)] using t by simp
qed

text \<open>
  Claim C3. From a state with no pending timeout, let one or more eligible input events
  arrive on the same element, each less than \<open>DEBOUNCE_MS\<close> after the one before, and
  let the clock then reach the last event's time plus \<open>DEBOUNCE_MS\<close>. No check fires
  during the events, and exactly one fires in the end, for that element. It reads the
  text the element has when the timer fires (\<open>later\<close>, whatever the page holds then),
  not a text of the time a timer was armed: the request, if the text is long enough,
  carries that text.
\<close>

theorem debounce_coalesces:
  assumes quiescent: "timers w = []" and g: "\<not> applyingCorrection w"
    and r: "resolveEditableHost (Some raw) = Some el"
    and c: "check (shouldCheckElement (Some el))"
    and ne: "evs \<noteq> []" and rp: "rapid evs" and t0: "now w \<le> fst (hd evs)"
    and quiet: "fst (last evs) + DEBOUNCE_MS \<le> t"
  shows "checksFired (typing raw evs w) = checksFired w
     \<and> texts (typing raw evs w) (elemId el) = snd (last evs)
     \<and> checksFired (advance t ((typing raw evs w)\<lparr>texts := later\<rparr>)) = checksFired w @ [elemId el]
     \<and> requests (advance t ((typing raw evs w)\<lparr>texts := later\<rparr>))
         = requests w @
           (if length (trim (getTextFromElement ((typing raw evs w)\<lparr>texts := later\<rparr>) el))
                 < MIN_TEXT_LENGTH
            then [] else [getTextFromElement ((typing raw evs w)\<lparr>texts := later\<rparr>) el])
     \<and> timers (advance t ((typing raw evs w)\<lparr>texts := later\<rparr>)) = []"
proof -
  define u where "u = (typing raw evs w)\<lparr>texts := later\<rparr>"
  have rdy: "ready el (fst (hd evs)) w" using quiescent g t0 by (simp add: ready_def)
  note ta = typing_armed [OF r c ne rp rdy]
  have a: "armed el (fst (last evs) + DEBOUNCE_MS) u"
    using ta by (simp add: u_def armed_texts)
  have tr: "trace u = trace w" using ta by (simp add: u_def)
  note f = fire_armed [OF a quiet]
  have 1: "checksFired (typing raw evs w) = checksFired w" using ta by (simp add: checksFired_def)
  have 2: "texts (typing raw evs w) (elemId el) = snd (last evs)" using ta by simp
  have 3: "checksFired (advance t u) = checksFired w @ [elemId el]"
    by (simp add: checksFired_def f(1) tr)
  have 4: "requests (advance t u) = requests w @
           (if length (trim (getTextFromElement u el)) < MIN_TEXT_LENGTH
            then [] else [getTextFromElement u el])"
    by (simp add: requests_def f(1) tr)
  from 1 2 3 4 f(3) show ?thesis unfolding u_def by blast
qed

lemma keystrokes_facts:
  "keystrokes \<noteq> []" "rapid keystrokes" "now idle \<le> fst (hd keystrokes)"
  "fst (last keystrokes) + DEBOUNCE_MS \<le> 3500" "timers idle = []" "\<not> applyingCorrection idle"
  by (simp_all add: keystrokes_def DEBOUNCE_MS_def idle_def)

theorem debounce_coalesces_witness:
  "rapid keystrokes
   \<and> checksFired (typing textArea keystrokes idle) = []
   \<and> texts (typing textArea keystrokes idle) 4 = ''I has teh cat today.''
   \<and> checksFired (advance 3500 ((typing textArea keystrokes idle)\<lparr>texts := retouched\<rparr>)) = [4]
   \<and> requests (advance 3500 ((typing textArea keystrokes idle)\<lparr>texts := retouched\<rparr>))
        = [''I has teh cat today, again.'']"
proof -
  note d = debounce_coalesces [OF keystrokes_facts(5,6) textArea_host textArea_eligible
      keystrokes_facts(1,2,3,4), of retouched]
  have e: "elemId textArea = 4" "tagName textArea = ''TEXTAREA''" by (simp_all add: textArea_def)
  have l: "snd (last keystrokes) = ''I has teh cat today.''" by (simp add: keystrokes_def)
  have t: "getTextFromElement ((typing textArea keystrokes idle)\<lparr>texts := retouched\<rparr>) textArea
      = ''I has teh cat today, again.''"
    by (simp add: getTextFromElement_def e retouched_def)
  have n: "\<not> length (trim ''I has teh cat today, again.'') < MIN_TEXT_LENGTH" by code_simp
  have i: "checksFired idle = []" "requests idle = []"
    by (simp_all add: checksFired_def requests_def idle_def)
  from d t n i e l keystrokes_facts(2) show ?thesis by simp
qed


end
